theory Spec2Isabelle
  imports Main
begin

section \<open>JavaScript values\<close>

text \<open>
  The values that travel through the client: JSON payloads of the backend, the strings
  of \<^verbatim>\<open>localStorage\<close>, and \<^verbatim>\<open>null\<close>/\<^verbatim>\<open>undefined\<close>. Numbers are restricted to
  integers (no claim depends on arithmetic). An object is an association list in which
  the first binding of a key is the property's value.
\<close>

datatype jsval =
    JUndefined
  | JNull
  | JBool bool
  | JNum int
  | JStr string
  | JArr "jsval list"
  | JObj "(string \<times> jsval) list"

datatype js_error =
    TypeError
  | Error string
  | NetworkError
  | BadStatus nat

text \<open>Truthiness, as tested by \<^verbatim>\<open>if (x)\<close> and \<^verbatim>\<open>!x\<close>.\<close>

fun js_truthy :: "jsval \<Rightarrow> bool" where
  "js_truthy JUndefined = False"
| "js_truthy JNull = False"
| "js_truthy (JBool b) = b"
| "js_truthy (JNum n) = (n \<noteq> 0)"
| "js_truthy (JStr s) = (s \<noteq> [])"
| "js_truthy (JArr xs) = True"
| "js_truthy (JObj fs) = True"

text \<open>Decimal rendering of a number, as \<^verbatim>\<open>String(n)\<close> gives it for an integer.\<close>

definition digit_char :: "nat \<Rightarrow> char" where
  "digit_char d = ''0123456789'' ! d"

fun digits :: "nat \<Rightarrow> string" where
  "digits n = (if n < 10 then [digit_char n] else digits (n div 10) @ [digit_char (n mod 10)])"

declare digits.simps [simp del]

fun join_comma :: "string list \<Rightarrow> string" where
  "join_comma [] = []"
| "join_comma [s] = s"
| "join_comma (s # t # ts) = s @ '','' @ join_comma (t # ts)"

text \<open>
  The string conversion applied by a template literal \<^verbatim>\<open>`${x}`\<close> and by
  \<^verbatim>\<open>localStorage.setItem\<close> to its value. An array joins its elements with commas,
  \<^verbatim>\<open>null\<close> and \<^verbatim>\<open>undefined\<close> elements giving the empty string.
\<close>

fun js_to_string :: "jsval \<Rightarrow> string" where
  "js_to_string JUndefined = ''undefined''"
| "js_to_string JNull = ''null''"
| "js_to_string (JBool b) = (if b then ''true'' else ''false'')"
| "js_to_string (JNum n) = (if n < 0 then ''-'' @ digits (nat (- n)) else digits (nat n))"
| "js_to_string (JStr s) = s"
| "js_to_string (JArr xs) =
     join_comma (map (\<lambda>x. if x = JUndefined \<or> x = JNull then [] else js_to_string x) xs)"
| "js_to_string (JObj fs) = ''[object Object]''"

text \<open>
  Property access \<^verbatim>\<open>v.k\<close>, for the property names this program reads
  (\<^verbatim>\<open>is_admin\<close>, \<^verbatim>\<open>access_token\<close>, \<^verbatim>\<open>user\<close>): it throws a TypeError on
  \<^verbatim>\<open>null\<close> and \<^verbatim>\<open>undefined\<close>, reads the property of an object, and is
  \<^verbatim>\<open>undefined\<close> on every other value.
\<close>

fun get_prop :: "jsval \<Rightarrow> string \<Rightarrow> js_error + jsval" where
  "get_prop JUndefined k = Inl TypeError"
| "get_prop JNull k = Inl TypeError"
| "get_prop (JObj fs) k = Inr (case map_of fs k of None \<Rightarrow> JUndefined | Some v \<Rightarrow> v)"
| "get_prop v k = Inr JUndefined"

section \<open>Client-side storage\<close>

type_synonym storage = "string \<rightharpoonup> string"

definition getItem :: "storage \<Rightarrow> string \<Rightarrow> jsval" where
  "getItem s k = (case s k of None \<Rightarrow> JNull | Some v \<Rightarrow> JStr v)"

definition setItem :: "storage \<Rightarrow> string \<Rightarrow> jsval \<Rightarrow> storage" where
  "setItem s k v = s(k \<mapsto> js_to_string v)"

definition removeItem :: "storage \<Rightarrow> string \<Rightarrow> storage" where
  "removeItem s k = s(k := None)"

section \<open>The HTTP client wrapper\<close>

text \<open>
  A request as it leaves the client. \<open>Axios\<close> requests go through the instance
  \<^verbatim>\<open>api\<close> (created with \<^verbatim>\<open>baseURL\<close> and \<^verbatim>\<open>withCredentials: true\<close>); \<open>Fetch\<close>
  requests are the direct \<^verbatim>\<open>fetch\<close> calls of the download helpers (with
  \<^verbatim>\<open>credentials: 'include'\<close>); \<open>WindowOpen\<close> is the navigation started by
  \<^verbatim>\<open>window.open(url, '_blank')\<close>. The headers are those the client's own code sets;
  what the HTTP library and the browser add by default is left out.
\<close>

datatype transport = Axios | Fetch | WindowOpen

record request =
  transport :: transport
  http_method :: string
  baseURL :: string
  url :: string
  headers :: "string \<rightharpoonup> string"
  payload :: jsval
  withCredentials :: bool

record response =
  status :: nat
  data :: jsval

type_synonym network = "request \<Rightarrow> js_error + response"

definition API_BASE_URL :: "string option \<Rightarrow> string" where
  "API_BASE_URL env = (case env of Some u \<Rightarrow> u | None \<Rightarrow> ''http://localhost:8001'')"

definition multipart :: "string \<rightharpoonup> string" where
  "multipart = [''Content-Type'' \<mapsto> ''multipart/form-data'']"

definition api_config :: "string \<Rightarrow> string \<Rightarrow> string \<Rightarrow> jsval \<Rightarrow> (string \<rightharpoonup> string) \<Rightarrow> request" where
  "api_config b m u d h =
     \<lparr>transport = Axios, http_method = m, baseURL = b, url = u, headers = h,
      payload = d, withCredentials = True\<rparr>"

definition fetch_config :: "string \<Rightarrow> request" where
  "fetch_config u =
     \<lparr>transport = Fetch, http_method = ''GET'', baseURL = [], url = u, headers = Map.empty,
      payload = JUndefined, withCredentials = True\<rparr>"

definition window_open :: "string \<Rightarrow> request" where
  "window_open u =
     \<lparr>transport = WindowOpen, http_method = ''GET'', baseURL = [], url = u, headers = Map.empty,
      payload = JUndefined, withCredentials = True\<rparr>"

text \<open>The request interceptor installed on \<^verbatim>\<open>api\<close>.\<close>

definition interceptor :: "storage \<Rightarrow> request \<Rightarrow> request" where
  "interceptor s config =
     (let token = getItem s ''token'' in
      if js_truthy token
      then config\<lparr>headers := (headers config)(''Authorization'' \<mapsto> ''Bearer '' @ js_to_string token)\<rparr>
      else config)"

text \<open>
  Every call the client module exports, with the arguments it is given. Identifiers
  and tokens are spliced into the path by a template literal.
\<close>

datatype api_call =
    AuthLogin jsval
  | AuthRegister jsval
  | AuthLogout
  | AuthVerifyEmail jsval
  | AuthResendVerification jsval
  | AuthForgotPassword jsval
  | AuthResetPassword jsval jsval
  | PapersGetAll
  | PapersCreate jsval
  | PapersUpdate jsval jsval
  | PapersDelete jsval
  | PapersDownload jsval
  | PapersView jsval
  | NotesGetAll
  | NotesCreate jsval
  | NotesUpdate jsval jsval
  | NotesDelete jsval
  | NotesDownload jsval
  | NotesView jsval
  | SyllabusGetAll
  | SyllabusCreate jsval
  | SyllabusUpdate jsval jsval
  | SyllabusDelete jsval
  | SyllabusDownload jsval
  | SyllabusView jsval
  | StatsGet
  | ProfileGet
  | ProfileUpdate jsval
  | ProfileUploadPhoto jsval
  | ProfileRemovePhoto
  | ProfileUpdatePassword jsval
  | ProfileGetStats
  | BookmarksGetAll
  | BookmarksCreate jsval
  | BookmarksRemove jsval jsval
  | BookmarksCheck jsval jsval
  | AchievementsGetAll
  | LearningGoalsGetAll
  | LearningGoalsCreate jsval
  | LearningGoalsUpdate jsval jsval
  | LearningGoalsDelete jsval

text \<open>The request each call builds, before any interceptor runs; \<open>b\<close> is the base URL.\<close>

primrec call_config :: "string \<Rightarrow> api_call \<Rightarrow> request" where
  "call_config b (AuthLogin credentials) =
     api_config b ''post'' ''/api/auth/login'' credentials Map.empty"
| "call_config b (AuthRegister userData) =
     api_config b ''post'' ''/api/auth/register'' userData Map.empty"
| "call_config b AuthLogout =
     api_config b ''post'' ''/api/auth/logout'' JUndefined Map.empty"
| "call_config b (AuthVerifyEmail token) =
     api_config b ''get'' (''/api/auth/verify-email/'' @ js_to_string token) JUndefined Map.empty"
| "call_config b (AuthResendVerification email) =
     api_config b ''post'' ''/api/auth/resend-verification'' (JObj [(''email'', email)]) Map.empty"
| "call_config b (AuthForgotPassword email) =
     api_config b ''post'' ''/api/auth/forgot-password'' (JObj [(''email'', email)]) Map.empty"
| "call_config b (AuthResetPassword token newPassword) =
     api_config b ''post'' ''/api/auth/reset-password''
       (JObj [(''token'', token), (''new_password'', newPassword)]) Map.empty"
| "call_config b PapersGetAll =
     api_config b ''get'' ''/api/papers'' JUndefined Map.empty"
| "call_config b (PapersCreate formData) =
     api_config b ''post'' ''/api/papers/'' formData multipart"
| "call_config b (PapersUpdate id' formData) =
     api_config b ''put'' (''/api/papers/'' @ js_to_string id' @ ''/'') formData multipart"
| "call_config b (PapersDelete id') =
     api_config b ''delete'' (''/api/papers/'' @ js_to_string id' @ ''/'') JUndefined Map.empty"
| "call_config b (PapersDownload id') =
     fetch_config (b @ ''/api/papers/'' @ js_to_string id' @ ''/download'')"
| "call_config b (PapersView id') =
     window_open (b @ ''/api/papers/'' @ js_to_string id' @ ''/view'')"
| "call_config b NotesGetAll =
     api_config b ''get'' ''/api/notes'' JUndefined Map.empty"
| "call_config b (NotesCreate formData) =
     api_config b ''post'' ''/api/notes/'' formData multipart"
| "call_config b (NotesUpdate id' formData) =
     api_config b ''put'' (''/api/notes/'' @ js_to_string id' @ ''/'') formData multipart"
| "call_config b (NotesDelete id') =
     api_config b ''delete'' (''/api/notes/'' @ js_to_string id' @ ''/'') JUndefined Map.empty"
| "call_config b (NotesDownload id') =
     fetch_config (b @ ''/api/notes/'' @ js_to_string id' @ ''/download'')"
| "call_config b (NotesView id') =
     window_open (b @ ''/api/notes/'' @ js_to_string id' @ ''/view'')"
| "call_config b SyllabusGetAll =
     api_config b ''get'' ''/api/syllabus'' JUndefined Map.empty"
| "call_config b (SyllabusCreate formData) =
     api_config b ''post'' ''/api/syllabus/'' formData multipart"
| "call_config b (SyllabusUpdate id' formData) =
     api_config b ''put'' (''/api/syllabus/'' @ js_to_string id' @ ''/'') formData multipart"
| "call_config b (SyllabusDelete id') =
     api_config b ''delete'' (''/api/syllabus/'' @ js_to_string id' @ ''/'') JUndefined Map.empty"
| "call_config b (SyllabusDownload id') =
     fetch_config (b @ ''/api/syllabus/'' @ js_to_string id' @ ''/download'')"
| "call_config b (SyllabusView id') =
     window_open (b @ ''/api/syllabus/'' @ js_to_string id' @ ''/view'')"
| "call_config b StatsGet =
     api_config b ''get'' ''/api/stats'' JUndefined Map.empty"
| "call_config b ProfileGet =
     api_config b ''get'' ''/api/auth/profile'' JUndefined Map.empty"
| "call_config b (ProfileUpdate profileData) =
     api_config b ''put'' ''/api/auth/profile'' profileData Map.empty"
| "call_config b (ProfileUploadPhoto file) =
     api_config b ''post'' ''/api/auth/profile/photo'' (JObj [(''file'', file)]) multipart"
| "call_config b ProfileRemovePhoto =
     api_config b ''delete'' ''/api/auth/profile/photo'' JUndefined Map.empty"
| "call_config b (ProfileUpdatePassword passwordData) =
     api_config b ''put'' ''/api/auth/profile/password'' passwordData Map.empty"
| "call_config b ProfileGetStats =
     api_config b ''get'' ''/api/auth/profile/stats'' JUndefined Map.empty"
| "call_config b BookmarksGetAll =
     api_config b ''get'' ''/api/bookmarks'' JUndefined Map.empty"
| "call_config b (BookmarksCreate bookmarkData) =
     api_config b ''post'' ''/api/bookmarks'' bookmarkData Map.empty"
| "call_config b (BookmarksRemove resourceType resourceId) =
     api_config b ''delete''
       (''/api/bookmarks/'' @ js_to_string resourceType @ ''/'' @ js_to_string resourceId)
       JUndefined Map.empty"
| "call_config b (BookmarksCheck resourceType resourceId) =
     api_config b ''get''
       (''/api/bookmarks/check/'' @ js_to_string resourceType @ ''/'' @ js_to_string resourceId)
       JUndefined Map.empty"
| "call_config b AchievementsGetAll =
     api_config b ''get'' ''/api/achievements'' JUndefined Map.empty"
| "call_config b LearningGoalsGetAll =
     api_config b ''get'' ''/api/learning-goals'' JUndefined Map.empty"
| "call_config b (LearningGoalsCreate goalData) =
     api_config b ''post'' ''/api/learning-goals'' goalData Map.empty"
| "call_config b (LearningGoalsUpdate goalId goalData) =
     api_config b ''put'' (''/api/learning-goals/'' @ js_to_string goalId) goalData Map.empty"
| "call_config b (LearningGoalsDelete goalId) =
     api_config b ''delete'' (''/api/learning-goals/'' @ js_to_string goalId) JUndefined Map.empty"

text \<open>
  The request handed to the network: a request of the instance \<^verbatim>\<open>api\<close> passes
  through the interceptor, the others leave as they were built.
\<close>

definition outbound :: "storage \<Rightarrow> string \<Rightarrow> api_call \<Rightarrow> request" where
  "outbound s b c =
     (let config = call_config b c in
      case transport config of
        Axios \<Rightarrow> interceptor s config
      | Fetch \<Rightarrow> config
      | WindowOpen \<Rightarrow> config)"

text \<open>
  A response counts as a success when its status is 2xx: the instance rejects every
  other status, and the download helpers test \<^verbatim>\<open>response.ok\<close>.
\<close>

definition response_ok :: "response \<Rightarrow> bool" where
  "response_ok r = (200 \<le> status r \<and> status r < 300)"

text \<open>A call through \<^verbatim>\<open>api\<close>: the promise resolves to the response or rejects.\<close>

definition api_send :: "network \<Rightarrow> storage \<Rightarrow> string \<Rightarrow> api_call \<Rightarrow> js_error + response" where
  "api_send net s b c =
     (case net (outbound s b c) of
        Inl e \<Rightarrow> Inl e
      | Inr r \<Rightarrow> if response_ok r then Inr r else Inl (BadStatus (status r)))"

text \<open>
  A download helper up to the point where the body is read: the request and the
  \<^verbatim>\<open>response.ok\<close> test. Saving the blob to a file is not modelled.
\<close>

definition download :: "network \<Rightarrow> storage \<Rightarrow> string \<Rightarrow> api_call \<Rightarrow> js_error + response" where
  "download net s b c =
     (case net (outbound s b c) of
        Inl e \<Rightarrow> Inl e
      | Inr r \<Rightarrow> if response_ok r then Inr r else Inl (Error ''Download failed''))"

section \<open>The authentication state holder\<close>

datatype console_entry =
    LogResponse string response
  | LogValue string jsval
  | LogError string js_error

text \<open>
  The provider's three state cells, together with the browser state its operations
  touch. The state updates of one operation are applied together.
\<close>

record state =
  localStorage :: storage
  currentUser :: jsval
  loading :: bool
  isAdmin :: bool
  console :: "console_entry list"

definition AuthProvider_init :: "storage \<Rightarrow> state" where
  "AuthProvider_init s =
     \<lparr>localStorage = s, currentUser = JNull, loading = True, isAdmin = False, console = []\<rparr>"

text \<open>
  \<^verbatim>\<open>checkAuth\<close>, run once by the mount effect. An exception inside \<^verbatim>\<open>try\<close>, whether
  the rejected fetch or the TypeError of \<^verbatim>\<open>user.is_admin\<close> on a \<^verbatim>\<open>null\<close> body, lands
  in \<^verbatim>\<open>catch\<close>; \<^verbatim>\<open>finally\<close> always clears \<^verbatim>\<open>loading\<close>.
\<close>

definition checkAuth :: "network \<Rightarrow> string \<Rightarrow> state \<Rightarrow> state" where
  "checkAuth net b st =
     (let token = getItem (localStorage st) ''token'' in
      if \<not> js_truthy token
      then st\<lparr>currentUser := JNull, isAdmin := False, loading := False\<rparr>
      else
        (case api_send net (localStorage st) b ProfileGet of
           Inl e \<Rightarrow> st\<lparr>currentUser := JNull, isAdmin := False, loading := False\<rparr>
         | Inr res \<Rightarrow>
             (let user = data res; st1 = st\<lparr>currentUser := user\<rparr> in
              case get_prop user ''is_admin'' of
                Inl e \<Rightarrow> st1\<lparr>currentUser := JNull, isAdmin := False, loading := False\<rparr>
              | Inr v \<Rightarrow> st1\<lparr>isAdmin := (v = JBool True), loading := False\<rparr>)))"

text \<open>
  \<^verbatim>\<open>login\<close>. The result is what the returned promise settles to, with the state left
  behind; an exception keeps the effects that came before it.
\<close>

definition login :: "network \<Rightarrow> string \<Rightarrow> jsval \<Rightarrow> jsval \<Rightarrow> state \<Rightarrow> (js_error + jsval) \<times> state" where
  "login net b email password st =
     (case api_send net (localStorage st) b
             (AuthLogin (JObj [(''email'', email), (''password'', password)])) of
        Inl e \<Rightarrow> (Inl e, st)
      | Inr res \<Rightarrow>
          (let st1 = st\<lparr>console := console st @ [LogResponse ''Login response:'' res]\<rparr> in
           case get_prop (data res) ''access_token'' of
             Inl e \<Rightarrow> (Inl e, st1)
           | Inr access_token \<Rightarrow>
               (let st2 = st1\<lparr>console := console st1 @ [LogValue ''Access token:'' access_token]\<rparr> in
                case get_prop (data res) ''user'' of
                  Inl e \<Rightarrow> (Inl e, st2)
                | Inr user \<Rightarrow>
                    (let st3 = st2\<lparr>console := console st2 @ [LogValue ''User:'' user]\<rparr>;
                         st4 = st3\<lparr>localStorage := setItem (localStorage st3) ''token'' access_token\<rparr>;
                         st5 = st4\<lparr>currentUser := user\<rparr>
                     in case get_prop user ''is_admin'' of
                          Inl e \<Rightarrow> (Inl e, st5)
                        | Inr v \<Rightarrow> (Inr user, st5\<lparr>isAdmin := (v = JBool True)\<rparr>)))))"

definition register :: "network \<Rightarrow> string \<Rightarrow> jsval \<Rightarrow> state \<Rightarrow> (js_error + jsval) \<times> state" where
  "register net b userData st =
     (case api_send net (localStorage st) b (AuthRegister userData) of
        Inl e \<Rightarrow> (Inl e, st)
      | Inr res \<Rightarrow>
          (case get_prop (data res) ''user'' of
             Inl e \<Rightarrow> (Inl e, st)
           | Inr user \<Rightarrow>
               (let st1 = st\<lparr>currentUser := user\<rparr> in
                case get_prop user ''is_admin'' of
                  Inl e \<Rightarrow> (Inl e, st1)
                | Inr v \<Rightarrow> (Inr user, st1\<lparr>isAdmin := (v = JBool True)\<rparr>))))"

definition logout :: "network \<Rightarrow> string \<Rightarrow> state \<Rightarrow> (js_error + jsval) \<times> state" where
  "logout net b st =
     (let st1 = (case api_send net (localStorage st) b AuthLogout of
                   Inl error \<Rightarrow> st\<lparr>console := console st @ [LogError ''Logout error:'' error]\<rparr>
                 | Inr res \<Rightarrow> st)
      in (Inr JUndefined,
          st1\<lparr>localStorage := removeItem (localStorage st1) ''token'',
              currentUser := JNull, isAdmin := False\<rparr>))"

definition updateUser :: "jsval \<Rightarrow> state \<Rightarrow> state" where
  "updateUser updatedUser st = st\<lparr>currentUser := updatedUser\<rparr>"

text \<open>
  What the provider renders: \<^verbatim>\<open>{!loading && children}\<close> is nothing while \<^verbatim>\<open>loading\<close>
  holds and the children otherwise.
\<close>

definition AuthProvider_render :: "state \<Rightarrow> 'c \<Rightarrow> 'c option" where
  "AuthProvider_render st children = (if \<not> loading st then Some children else None)"

text \<open>
  The context value under which a component runs: the value of the nearest enclosing
  provider, or \<^verbatim>\<open>undefined\<close> (the context is created without a default) when there is
  none. The context object is not exported, so \<^verbatim>\<open>AuthProvider\<close> is its only provider,
  and the value it provides is an object.
\<close>

definition useContext :: "'v list \<Rightarrow> 'v option" where
  "useContext providers = (case providers of [] \<Rightarrow> None | v # _ \<Rightarrow> Some v)"

definition useAuth :: "'v list \<Rightarrow> js_error + 'v" where
  "useAuth providers =
     (case useContext providers of
        None \<Rightarrow> Inl (Error ''useAuth must be used within an AuthProvider'')
      | Some context \<Rightarrow> Inr context)"

text \<open>
  The life of one mounted provider: the mount effect's \<^verbatim>\<open>checkAuth\<close> settling, and the
  operations of the context value, each with the backend's behaviour at that moment.
\<close>

datatype event =
    CheckAuth network
  | Login network jsval jsval
  | Register network jsval
  | Logout network
  | UpdateUser jsval

primrec step :: "string \<Rightarrow> state \<Rightarrow> event \<Rightarrow> state" where
  "step b st (CheckAuth net) = checkAuth net b st"
| "step b st (Login net email password) = snd (login net b email password st)"
| "step b st (Register net userData) = snd (register net b userData st)"
| "step b st (Logout net) = snd (logout net b st)"
| "step b st (UpdateUser updatedUser) = updateUser updatedUser st"

definition run :: "string \<Rightarrow> state \<Rightarrow> event list \<Rightarrow> state" where
  "run b st evs = foldl (step b) st evs"

primrec is_CheckAuth :: "event \<Rightarrow> bool" where
  "is_CheckAuth (CheckAuth net) = True"
| "is_CheckAuth (Login net email password) = False"
| "is_CheckAuth (Register net userData) = False"
| "is_CheckAuth (Logout net) = False"
| "is_CheckAuth (UpdateUser updatedUser) = False"

text \<open>
  The value \<^verbatim>\<open>isAdmin\<close> would have if it were computed from the held user:
  \<^verbatim>\<open>currentUser.is_admin === true\<close>, and false when no user is held.
\<close>

definition derived_isAdmin :: "state \<Rightarrow> bool" where
  "derived_isAdmin st = (get_prop (currentUser st) ''is_admin'' = Inr (JBool True))"

section \<open>Properties of the HTTP client wrapper\<close>

lemma call_config_no_authorization:
  "headers (call_config b c) ''Authorization'' = None"
  by (cases c) (simp_all add: api_config_def fetch_config_def window_open_def multipart_def)

lemma interceptor_token:
  "s ''token'' = Some t \<Longrightarrow> t \<noteq> [] \<Longrightarrow>
   headers (interceptor s config) ''Authorization'' = Some (''Bearer '' @ t)"
  by (simp add: interceptor_def getItem_def)

lemma interceptor_no_token:
  "s ''token'' = None \<Longrightarrow> interceptor s config = config"
  by (simp add: interceptor_def getItem_def)

text \<open>
  C1, as the code has it: with a non-empty token in storage, a request carries
  \<^verbatim>\<open>Authorization: Bearer <token>\<close> exactly when it is issued through the instance
  \<^verbatim>\<open>api\<close>; the download and view helpers, which do not use the instance, carry no
  Authorization header.
\<close>

theorem api_requests_carry_bearer_token:
  assumes "s ''token'' = Some t" and "t \<noteq> []"
  shows "headers (outbound s b c) ''Authorization'' =
           (if transport (call_config b c) = Axios then Some (''Bearer '' @ t) else None)"
proof (cases "transport (call_config b c)")
  case Axios
  then show ?thesis using assms by (simp add: outbound_def interceptor_token)
next
  case Fetch
  then show ?thesis by (simp add: outbound_def call_config_no_authorization)
next
  case WindowOpen
  then show ?thesis by (simp add: outbound_def call_config_no_authorization)
qed

text \<open>
  C1, witness: with the token \<open>abc\<close> stored, the profile request carries it and the
  notes download does not.
\<close>

theorem api_requests_carry_bearer_token_witness:
  "[''token'' \<mapsto> ''abc''] ''token'' = Some ''abc'' \<and> ''abc'' \<noteq> [] \<and>
   headers (outbound [''token'' \<mapsto> ''abc''] (API_BASE_URL None) ProfileGet) ''Authorization''
     = Some ''Bearer abc'' \<and>
   headers (outbound [''token'' \<mapsto> ''abc''] (API_BASE_URL None) (NotesDownload (JNum 7)))
     ''Authorization'' = None"
  using
    api_requests_carry_bearer_token
      [of "[''token'' \<mapsto> ''abc'']" "''abc''" "API_BASE_URL None" ProfileGet]
    api_requests_carry_bearer_token
      [of "[''token'' \<mapsto> ''abc'']" "''abc''" "API_BASE_URL None" "NotesDownload (JNum 7)"]
  by (simp add: api_config_def fetch_config_def)

text \<open>
  C1, counterexample to the claim as stated: with the token \<open>abc\<close> stored,
  \<^verbatim>\<open>papersAPI.download(42)\<close> issues a request with no headers at all; and with the
  empty string stored under \<^verbatim>\<open>token\<close>, a request through \<^verbatim>\<open>api\<close> gets no
  Authorization header either, since the empty string is falsy.
\<close>

theorem download_carries_no_token:
  "getItem [''token'' \<mapsto> ''abc''] ''token'' = JStr ''abc'' \<and>
   outbound [''token'' \<mapsto> ''abc''] (API_BASE_URL None) (PapersDownload (JNum 42)) =
     \<lparr>transport = Fetch, http_method = ''GET'', baseURL = [],
      url = ''http://localhost:8001/api/papers/42/download'', headers = Map.empty,
      payload = JUndefined, withCredentials = True\<rparr> \<and>
   getItem [''token'' \<mapsto> []] ''token'' = JStr [] \<and>
   headers (outbound [''token'' \<mapsto> []] (API_BASE_URL None) ProfileGet) ''Authorization'' = None"
  by (simp add: getItem_def outbound_def fetch_config_def api_config_def interceptor_def
      API_BASE_URL_def digits.simps digit_char_def)

text \<open>
  C8: with no token in storage the interceptor returns the configuration it was given,
  and no request of the client carries an Authorization header.
\<close>

theorem no_token_no_authorization:
  assumes "s ''token'' = None"
  shows "interceptor s config = config \<and> headers (outbound s b c) ''Authorization'' = None"
  using assms
  by (simp add: interceptor_no_token outbound_def Let_def call_config_no_authorization
      split: transport.splits)

text \<open>C8, witness: empty storage and the request that lists the papers.\<close>

theorem no_token_no_authorization_witness:
  "Map.empty ''token'' = (None :: string option) \<and>
   interceptor Map.empty (call_config (API_BASE_URL None) PapersGetAll)
     = call_config (API_BASE_URL None) PapersGetAll \<and>
   headers (outbound Map.empty (API_BASE_URL None) PapersGetAll) ''Authorization'' = None"
  using no_token_no_authorization
      [of Map.empty "call_config (API_BASE_URL None) PapersGetAll" "API_BASE_URL None" PapersGetAll]
  by simp

section \<open>Properties of the authentication state holder\<close>

text \<open>
  C10: outside every provider \<^verbatim>\<open>useAuth\<close> throws its error; under a provider it returns
  the value of the nearest one.
\<close>

theorem useAuth_throws_outside_provider:
  "useAuth [] = Inl (Error ''useAuth must be used within an AuthProvider'') \<and>
   useAuth (v # vs) = Inr v"
  by (simp add: useAuth_def useContext_def)

subsection \<open>What each operation leaves untouched\<close>

lemma checkAuth_localStorage: "localStorage (checkAuth net b st) = localStorage st"
  by (simp add: checkAuth_def Let_def split: sum.splits)

lemma register_localStorage: "localStorage (snd (register net b userData st)) = localStorage st"
  by (simp add: register_def Let_def split: sum.splits)

lemma updateUser_isAdmin: "isAdmin (updateUser updatedUser st) = isAdmin st"
  by (simp add: updateUser_def)

lemma login_loading: "loading (snd (login net b email password st)) = loading st"
  by (simp add: login_def Let_def split: sum.splits)

lemma register_loading: "loading (snd (register net b userData st)) = loading st"
  by (simp add: register_def Let_def split: sum.splits)

lemma logout_loading: "loading (snd (logout net b st)) = loading st"
  by (simp add: logout_def Let_def split: sum.splits)

lemma updateUser_loading: "loading (updateUser updatedUser st) = loading st"
  by (simp add: updateUser_def)

lemma step_loading: "\<not> is_CheckAuth ev \<Longrightarrow> loading (step b st ev) = loading st"
  by (cases ev) (simp_all add: login_loading register_loading logout_loading updateUser_loading)

lemma run_loading: "\<not> list_ex is_CheckAuth evs \<Longrightarrow> loading (run b st evs) = loading st"
  unfolding run_def
  by (induction evs arbitrary: st) (simp_all add: step_loading)

subsection \<open>The admin flag and the held user\<close>

text \<open>
  The operations that set the user together with the flag leave the flag equal to the
  value derived from the user they set.
\<close>

lemma checkAuth_derived: "isAdmin (checkAuth net b st) = derived_isAdmin (checkAuth net b st)"
  by (auto simp: checkAuth_def Let_def derived_isAdmin_def split: sum.splits)

lemma login_derived:
  "login net b email password st = (Inr user, st') \<Longrightarrow> isAdmin st' = derived_isAdmin st'"
  by (auto simp: login_def Let_def derived_isAdmin_def split: sum.splits)

lemma register_derived:
  "register net b userData st = (Inr user, st') \<Longrightarrow> isAdmin st' = derived_isAdmin st'"
  by (auto simp: register_def Let_def derived_isAdmin_def split: sum.splits)

lemma logout_derived:
  "isAdmin (snd (logout net b st)) = derived_isAdmin (snd (logout net b st))"
  by (simp add: logout_def Let_def derived_isAdmin_def split: sum.splits)

text \<open>
  C2, the code at a failing input: after the startup check and a login as an
  administrator, \<^verbatim>\<open>updateUser\<close> with a user whose \<^verbatim>\<open>is_admin\<close> is false leaves
  \<^verbatim>\<open>isAdmin\<close> true, while \<^verbatim>\<open>currentUser.is_admin === true\<close> is false.
\<close>

theorem updateUser_leaves_isAdmin_stale:
  "isAdmin (updateUser (JObj [(''email'', JStr ''a@b.c''), (''is_admin'', JBool False)])
      (snd (login
      (\<lambda>r. Inr \<lparr>status = 200, data = JObj [(''access_token'', JStr ''abc''),
          (''user'', JObj [(''email'', JStr ''a@b.c''), (''is_admin'', JBool True)])]\<rparr>)
      (API_BASE_URL None) (JStr ''a@b.c'') (JStr ''pw'')
      (checkAuth (\<lambda>r. Inl NetworkError) (API_BASE_URL None) (AuthProvider_init Map.empty))))) = True \<and>
   derived_isAdmin (updateUser (JObj [(''email'', JStr ''a@b.c''), (''is_admin'', JBool False)])
      (snd (login
      (\<lambda>r. Inr \<lparr>status = 200, data = JObj [(''access_token'', JStr ''abc''),
          (''user'', JObj [(''email'', JStr ''a@b.c''), (''is_admin'', JBool True)])]\<rparr>)
      (API_BASE_URL None) (JStr ''a@b.c'') (JStr ''pw'')
      (checkAuth (\<lambda>r. Inl NetworkError) (API_BASE_URL None) (AuthProvider_init Map.empty))))) = False"
  by (simp add: updateUser_def login_def api_send_def response_ok_def checkAuth_def
      AuthProvider_init_def getItem_def setItem_def derived_isAdmin_def Let_def)

subsection \<open>login, register, logout\<close>

text \<open>
  C3: when \<^verbatim>\<open>login\<close> returns, the backend call had succeeded, the held user is the
  \<^verbatim>\<open>user\<close> of the response body (the value returned), and the string form of the
  body's \<^verbatim>\<open>access_token\<close> is stored under the key \<^verbatim>\<open>token\<close>.
\<close>

theorem login_sets_user_and_token:
  assumes "login net b email password st = (Inr user, st')"
  shows "\<exists>res access_token.
           api_send net (localStorage st) b
             (AuthLogin (JObj [(''email'', email), (''password'', password)])) = Inr res \<and>
           get_prop (data res) ''user'' = Inr user \<and>
           currentUser st' = user \<and>
           get_prop (data res) ''access_token'' = Inr access_token \<and>
           localStorage st' ''token'' = Some (js_to_string access_token)"
  using assms
  by (auto simp: login_def Let_def setItem_def split: sum.splits)

text \<open>C3, witness: a login answered with the token \<open>abc\<close> and an administrator.\<close>

theorem login_sets_user_and_token_witness:
  "fst (login
      (\<lambda>r. Inr \<lparr>status = 200, data = JObj [(''access_token'', JStr ''abc''),
          (''user'', JObj [(''email'', JStr ''a@b.c''), (''is_admin'', JBool True)])]\<rparr>)
      (API_BASE_URL None) (JStr ''a@b.c'') (JStr ''pw'')
      (checkAuth (\<lambda>r. Inl NetworkError) (API_BASE_URL None) (AuthProvider_init Map.empty)))
     = Inr (JObj [(''email'', JStr ''a@b.c''), (''is_admin'', JBool True)]) \<and>
   currentUser (snd (login
      (\<lambda>r. Inr \<lparr>status = 200, data = JObj [(''access_token'', JStr ''abc''),
          (''user'', JObj [(''email'', JStr ''a@b.c''), (''is_admin'', JBool True)])]\<rparr>)
      (API_BASE_URL None) (JStr ''a@b.c'') (JStr ''pw'')
      (checkAuth (\<lambda>r. Inl NetworkError) (API_BASE_URL None) (AuthProvider_init Map.empty))))
     = JObj [(''email'', JStr ''a@b.c''), (''is_admin'', JBool True)] \<and>
   localStorage (snd (login
      (\<lambda>r. Inr \<lparr>status = 200, data = JObj [(''access_token'', JStr ''abc''),
          (''user'', JObj [(''email'', JStr ''a@b.c''), (''is_admin'', JBool True)])]\<rparr>)
      (API_BASE_URL None) (JStr ''a@b.c'') (JStr ''pw'')
      (checkAuth (\<lambda>r. Inl NetworkError) (API_BASE_URL None) (AuthProvider_init Map.empty)))) ''token''
     = Some ''abc''"
  using login_sets_user_and_token [of
      "\<lambda>r. Inr \<lparr>status = 200, data = JObj [(''access_token'', JStr ''abc''),
          (''user'', JObj [(''email'', JStr ''a@b.c''), (''is_admin'', JBool True)])]\<rparr>"
      "API_BASE_URL None" "JStr ''a@b.c''" "JStr ''pw''"
      "checkAuth (\<lambda>r. Inl NetworkError) (API_BASE_URL None) (AuthProvider_init Map.empty)"
      "JObj [(''email'', JStr ''a@b.c''), (''is_admin'', JBool True)]"
      "snd (login
      (\<lambda>r. Inr \<lparr>status = 200, data = JObj [(''access_token'', JStr ''abc''),
          (''user'', JObj [(''email'', JStr ''a@b.c''), (''is_admin'', JBool True)])]\<rparr>)
      (API_BASE_URL None) (JStr ''a@b.c'') (JStr ''pw'')
      (checkAuth (\<lambda>r. Inl NetworkError) (API_BASE_URL None) (AuthProvider_init Map.empty)))"]
  by (simp add: login_def api_send_def response_ok_def setItem_def checkAuth_def
      AuthProvider_init_def getItem_def Let_def)

text \<open>
  C4: \<^verbatim>\<open>logout\<close> never throws, and whatever the backend call did, success or failure,
  it leaves no user, no admin flag and no \<^verbatim>\<open>token\<close> in storage.
\<close>

theorem logout_clears_session:
  "fst (logout net b st) = Inr JUndefined \<and>
   currentUser (snd (logout net b st)) = JNull \<and>
   isAdmin (snd (logout net b st)) = False \<and>
   localStorage (snd (logout net b st)) ''token'' = None \<and>
   getItem (localStorage (snd (logout net b st))) ''token'' = JNull"
  by (simp add: logout_def Let_def removeItem_def getItem_def split: sum.splits)

text \<open>
  C5, the code at a failing input: a registration that the backend answers with a user
  and an access token returns the user and holds it as the current user, and storage
  still has no \<^verbatim>\<open>token\<close>.
\<close>

theorem register_persists_no_token:
  "fst (register
      (\<lambda>r. Inr \<lparr>status = 200, data = JObj [(''access_token'', JStr ''abc''),
          (''user'', JObj [(''email'', JStr ''a@b.c''), (''is_admin'', JBool False)])]\<rparr>)
      (API_BASE_URL None)
      (JObj [(''email'', JStr ''a@b.c''), (''password'', JStr ''pw'')])
      (checkAuth (\<lambda>r. Inl NetworkError) (API_BASE_URL None) (AuthProvider_init Map.empty)))
     = Inr (JObj [(''email'', JStr ''a@b.c''), (''is_admin'', JBool False)]) \<and>
   snd (register
      (\<lambda>r. Inr \<lparr>status = 200, data = JObj [(''access_token'', JStr ''abc''),
          (''user'', JObj [(''email'', JStr ''a@b.c''), (''is_admin'', JBool False)])]\<rparr>)
      (API_BASE_URL None)
      (JObj [(''email'', JStr ''a@b.c''), (''password'', JStr ''pw'')])
      (checkAuth (\<lambda>r. Inl NetworkError) (API_BASE_URL None) (AuthProvider_init Map.empty)))
     = \<lparr>localStorage = Map.empty,
        currentUser = JObj [(''email'', JStr ''a@b.c''), (''is_admin'', JBool False)],
        loading = False, isAdmin = False, console = []\<rparr> \<and>
   getItem Map.empty ''token'' = JNull"
  by (simp add: register_def api_send_def response_ok_def checkAuth_def AuthProvider_init_def
      getItem_def Let_def)

subsection \<open>The startup check\<close>

text \<open>
  C6, as the code has it: when the profile fetch of the startup check fails, client-side
  storage is left as it was; the token stays stored.
\<close>

theorem checkAuth_failure_keeps_token:
  assumes "api_send net (localStorage st) b ProfileGet = Inl e"
  shows "localStorage (checkAuth net b st) = localStorage st"
  using assms by (simp add: checkAuth_def Let_def)

text \<open>C6, witness: the token \<open>abc\<close> and a network error.\<close>

theorem checkAuth_failure_keeps_token_witness:
  "api_send (\<lambda>r. Inl NetworkError)
     (localStorage (AuthProvider_init [''token'' \<mapsto> ''abc''])) (API_BASE_URL None) ProfileGet
     = Inl NetworkError \<and>
   localStorage (checkAuth (\<lambda>r. Inl NetworkError) (API_BASE_URL None)
     (AuthProvider_init [''token'' \<mapsto> ''abc''])) ''token'' = Some ''abc''"
  using checkAuth_failure_keeps_token [of "\<lambda>r. Inl NetworkError"
      "AuthProvider_init [''token'' \<mapsto> ''abc'']" "API_BASE_URL None" NetworkError]
  by (simp add: api_send_def AuthProvider_init_def)

text \<open>
  C6, counterexample to the claim as stated: the backend rejects the stored token
  \<open>abc\<close> with status 401, the profile fetch fails, and after the startup check
  \<^verbatim>\<open>localStorage.getItem('token')\<close> is still \<open>abc\<close>.
\<close>

theorem rejected_token_stays_stored:
  "api_send (\<lambda>r. Inr \<lparr>status = 401, data = JObj [(''detail'', JStr ''Invalid token'')]\<rparr>)
     (localStorage (AuthProvider_init [''token'' \<mapsto> ''abc''])) (API_BASE_URL None) ProfileGet
     = Inl (BadStatus 401) \<and>
   getItem (localStorage
      (checkAuth (\<lambda>r. Inr \<lparr>status = 401, data = JObj [(''detail'', JStr ''Invalid token'')]\<rparr>)
         (API_BASE_URL None) (AuthProvider_init [''token'' \<mapsto> ''abc'']))) ''token''
     = JStr ''abc''"
  by (simp add: api_send_def response_ok_def checkAuth_def AuthProvider_init_def getItem_def)

text \<open>
  C7: whatever makes the profile fetch fail, the startup check ends in the same state:
  no user, no admin flag, not loading, everything else as it was.
\<close>

theorem checkAuth_failure_is_anonymous:
  assumes "api_send net (localStorage st) b ProfileGet = Inl e"
  shows "checkAuth net b st = st\<lparr>currentUser := JNull, isAdmin := False, loading := False\<rparr>"
  using assms by (simp add: checkAuth_def Let_def)

text \<open>
  C7, witness: with the token \<open>abc\<close> stored, a network error and a status 500 both end
  in the same anonymous state.
\<close>

theorem checkAuth_failure_is_anonymous_witness:
  "api_send (\<lambda>r. Inl NetworkError)
     (localStorage (AuthProvider_init [''token'' \<mapsto> ''abc''])) (API_BASE_URL None) ProfileGet
     = Inl NetworkError \<and>
   api_send (\<lambda>r. Inr \<lparr>status = 500, data = JStr ''Internal Server Error''\<rparr>)
     (localStorage (AuthProvider_init [''token'' \<mapsto> ''abc''])) (API_BASE_URL None) ProfileGet
     = Inl (BadStatus 500) \<and>
   checkAuth (\<lambda>r. Inl NetworkError) (API_BASE_URL None) (AuthProvider_init [''token'' \<mapsto> ''abc''])
     = \<lparr>localStorage = [''token'' \<mapsto> ''abc''], currentUser = JNull, loading = False,
        isAdmin = False, console = []\<rparr> \<and>
   checkAuth (\<lambda>r. Inr \<lparr>status = 500, data = JStr ''Internal Server Error''\<rparr>) (API_BASE_URL None)
       (AuthProvider_init [''token'' \<mapsto> ''abc''])
     = \<lparr>localStorage = [''token'' \<mapsto> ''abc''], currentUser = JNull, loading = False,
        isAdmin = False, console = []\<rparr>"
  using
    checkAuth_failure_is_anonymous [of "\<lambda>r. Inl NetworkError"
      "AuthProvider_init [''token'' \<mapsto> ''abc'']" "API_BASE_URL None" NetworkError]
    checkAuth_failure_is_anonymous
      [of "\<lambda>r. Inr \<lparr>status = 500, data = JStr ''Internal Server Error''\<rparr>"
      "AuthProvider_init [''token'' \<mapsto> ''abc'']" "API_BASE_URL None" "BadStatus 500"]
  by (simp add: api_send_def response_ok_def AuthProvider_init_def)

subsection \<open>Rendering\<close>

text \<open>
  C9: in any history of a mounted provider, if the children are rendered then the
  startup check has settled and \<^verbatim>\<open>loading\<close> is false.
\<close>

theorem children_render_after_checkAuth:
  assumes "AuthProvider_render (run b (AuthProvider_init s) evs) children = Some c"
  shows "list_ex is_CheckAuth evs \<and> \<not> loading (run b (AuthProvider_init s) evs) \<and> c = children"
proof -
  from assms have nl: "\<not> loading (run b (AuthProvider_init s) evs)" and c: "c = children"
    by (auto simp: AuthProvider_render_def split: if_splits)
  have "list_ex is_CheckAuth evs"
  proof (rule ccontr)
    assume "\<not> list_ex is_CheckAuth evs"
    then have "loading (run b (AuthProvider_init s) evs) = loading (AuthProvider_init s)"
      by (rule run_loading)
    with nl show False by (simp add: AuthProvider_init_def)
  qed
  with nl c show ?thesis by simp
qed

text \<open>
  C9, witness: once the startup check has settled the children are rendered; before
  it, nothing is.
\<close>

theorem children_render_after_checkAuth_witness:
  "AuthProvider_render (run (API_BASE_URL None) (AuthProvider_init Map.empty)
      [CheckAuth (\<lambda>r. Inl NetworkError)]) ''children'' = Some ''children'' \<and>
   list_ex is_CheckAuth [CheckAuth (\<lambda>r. Inl NetworkError)] \<and>
   AuthProvider_render (run (API_BASE_URL None) (AuthProvider_init Map.empty) []) ''children''
     = None"
  using children_render_after_checkAuth [of "API_BASE_URL None" Map.empty
      "[CheckAuth (\<lambda>r. Inl NetworkError)]" "''children''" "''children''"]
  by (simp add: AuthProvider_render_def run_def checkAuth_def AuthProvider_init_def getItem_def)

end
